theory Spec2Isabelle
  imports Main "HOL-Library.Word"
begin

section \<open>The build: what the preprocessor sees\<close>

text \<open>
  \<^verbatim>\<open>evdi_compat.c\<close> includes \<^verbatim>\<open>evdi_lib.h\<close>, a header of the external library, and
  then tests three macros. The header is not part of the repository, so the macros are
  the parameters of a build: whether \<^verbatim>\<open>EVDI_CONNECT_COMPAT\<close> is defined when line 11 is
  reached, and the values of the two version macros, \<open>None\<close> when a macro is not
  defined.
\<close>

record build =
  EVDI_CONNECT_COMPAT :: bool
  LIBEVDI_VERSION_MAJOR :: "int option"
  LIBEVDI_VERSION_MINOR :: "int option"

text \<open>
  In the controlling expression of \<^verbatim>\<open>#if\<close> an identifier that is not a macro is
  replaced by \<open>0\<close>.
\<close>

definition pp_value :: "int option \<Rightarrow> int" where
  "pp_value m = (case m of None \<Rightarrow> 0 | Some v \<Rightarrow> v)"

text \<open>
  Line 16: \<^verbatim>\<open>#if LIBEVDI_VERSION_MAJOR>1 || LIBEVDI_VERSION_MINOR>11\<close>.
\<close>

definition five_argument_form :: "build \<Rightarrow> bool" where
  "five_argument_form b \<longleftrightarrow>
     pp_value (LIBEVDI_VERSION_MAJOR b) > 1 \<or> pp_value (LIBEVDI_VERSION_MINOR b) > 11"


section \<open>The primitive and the state it acts on\<close>

text \<open>
  Pointers are addresses, with \<open>0\<close> the null pointer; \<^verbatim>\<open>unsigned int\<close> and
  \<^verbatim>\<open>uint32_t\<close> are 32-bit words. The handle type \<^verbatim>\<open>evdi_handle\<close> is declared by the
  library's header and stays a type parameter.
\<close>

type_synonym addr = nat

text \<open>
  A call of \<^verbatim>\<open>evdi_connect\<close>, in either of the two forms that lines 17 and 19 write:
  the callee's form and the argument values in their positions.
\<close>

datatype 'h evdi_call =
    Connect5 'h addr "32 word" "32 word" "32 word"
  | Connect4 'h addr "32 word" "32 word"

text \<open>The form of a call: which of the two signatures it is written for.\<close>

fun is_five :: "'h evdi_call \<Rightarrow> bool" where
  "is_five (Connect5 h e l a r) = True"
| "is_five (Connect4 h e l r) = False"

text \<open>
  What a call of the primitive can change: the memory of the process (the EDID buffer
  of the caller lives there) and the state the library keeps, of a type this file knows
  nothing about.
\<close>

record 'x world =
  memory :: "addr \<Rightarrow> 8 word"
  library :: 'x

text \<open>
  The primitive is a parameter of the model. The header that declares \<^verbatim>\<open>evdi_connect\<close>
  is not part of the repository, so the type of what the primitive returns is a
  parameter too: \<open>'r\<close>, which is \<open>unit\<close> for a primitive declared \<^verbatim>\<open>void\<close>.
\<close>

type_synonym ('h, 'x, 'r) primitive = "'h evdi_call \<Rightarrow> 'x world \<Rightarrow> 'r \<times> 'x world"

text \<open>
  A run is observed through the world and through the list of calls of the primitive
  made so far. The list is kept beside the world, out of the primitive's reach.
\<close>

record ('h, 'x) machine =
  world :: "'x world"
  trace :: "'h evdi_call list"

definition call_primitive ::
  "('h, 'x, 'r) primitive \<Rightarrow> 'h evdi_call \<Rightarrow> ('h, 'x) machine \<Rightarrow> 'r \<times> ('h, 'x) machine" where
  "call_primitive evdi_connect c m =
     (case evdi_connect c (world m) of
        (r, w') \<Rightarrow> (r, \<lparr>world = w', trace = trace m @ [c]\<rparr>))"


section \<open>The shim\<close>

text \<open>
  Lines 12 to 21. The preprocessor keeps one of the two \<^verbatim>\<open>return\<close> statements. The
  function takes the primitive it is linked with, its five parameters in the order of
  the source, and the state it is called in.

  The function is declared \<^verbatim>\<open>void\<close>: its \<^verbatim>\<open>return\<close> statement evaluates the call of
  \<^verbatim>\<open>evdi_connect\<close> and hands no value to the caller. The result is the unit value and
  the state the call leaves.
\<close>

type_synonym ('h, 'x, 'r) shim =
  "('h, 'x, 'r) primitive \<Rightarrow> 'h \<Rightarrow> addr \<Rightarrow> 32 word \<Rightarrow> 32 word \<Rightarrow> 32 word \<Rightarrow>
   ('h, 'x) machine \<Rightarrow> unit \<times> ('h, 'x) machine"

definition evdi_connect_compat :: "build \<Rightarrow> ('h, 'x, 'r) shim" where
  "evdi_connect_compat b evdi_connect
       handle edid edid_length pixel_area_limit pixel_per_second_limit m =
     (if five_argument_form b
      then ((), snd (call_primitive evdi_connect
             (Connect5 handle edid edid_length pixel_area_limit pixel_per_second_limit) m))
      else ((), snd (call_primitive evdi_connect
             (Connect4 handle edid edid_length pixel_per_second_limit) m)))"

text \<open>
  Lines 11 and 22: the functions the translation unit defines, by name. Under
  \<^verbatim>\<open>#ifndef EVDI_CONNECT_COMPAT\<close> the file defines \<^verbatim>\<open>evdi_connect_compat\<close> or nothing.
\<close>

definition translation_unit :: "build \<Rightarrow> (string \<times> ('h, 'x, 'r) shim) list" where
  "translation_unit b =
     (if EVDI_CONNECT_COMPAT b then []
      else [(''evdi_connect_compat'', evdi_connect_compat b)])"


section \<open>Basic facts\<close>

lemma call_primitive_trace:
  "trace (snd (call_primitive p c m)) = trace m @ [c]"
  by (simp add: call_primitive_def split: prod.split)

lemma call_primitive_world:
  "world (snd (call_primitive p c m)) = snd (p c (world m))"
  by (simp add: call_primitive_def split: prod.split)

lemma call_primitive_state:
  "snd (call_primitive p c m) = \<lparr>world = snd (p c (world m)), trace = trace m @ [c]\<rparr>"
  by (simp add: call_primitive_def split: prod.split)

lemma five_argument_call:
  "five_argument_form b \<Longrightarrow>
     evdi_connect_compat b p h e l a r m = ((), snd (call_primitive p (Connect5 h e l a r) m))"
  by (simp add: evdi_connect_compat_def)

lemma four_argument_call:
  "\<not> five_argument_form b \<Longrightarrow>
     evdi_connect_compat b p h e l a r m = ((), snd (call_primitive p (Connect4 h e l r) m))"
  by (simp add: evdi_connect_compat_def)

lemma threshold_implies_five:
  "pp_value (LIBEVDI_VERSION_MAJOR b) > 1 \<or>
   (pp_value (LIBEVDI_VERSION_MAJOR b) = 1 \<and> pp_value (LIBEVDI_VERSION_MINOR b) > 11)
   \<Longrightarrow> five_argument_form b"
  by (auto simp: five_argument_form_def)

text \<open>
  The whole outcome of a call of the shim, for any primitive: the primitive applied
  once, to the call the build selects and the world the shim was called in.
\<close>

lemma evdi_connect_compat_outcome:
  "evdi_connect_compat b p h e l a r m =
     ((), \<lparr>world = snd (p (if five_argument_form b then Connect5 h e l a r
                          else Connect4 h e l r) (world m)),
           trace = trace m @ [if five_argument_form b then Connect5 h e l a r
                              else Connect4 h e l r]\<rparr>)"
  by (simp add: evdi_connect_compat_def call_primitive_state)


section \<open>The newer library: all five arguments\<close>

text \<open>
  Claim C1. When the version macros meet the threshold "major > 1, or major = 1 and
  minor > 11", a call of the shim applies the primitive, in its five-argument form, to
  the five values the shim was given, in the order it was given them, and to the world
  it was called in; the state after the shim is the state that one call leaves.
\<close>

theorem newer_version_forwards_five:
  assumes "pp_value (LIBEVDI_VERSION_MAJOR b) > 1 \<or>
           (pp_value (LIBEVDI_VERSION_MAJOR b) = 1 \<and> pp_value (LIBEVDI_VERSION_MINOR b) > 11)"
  shows "evdi_connect_compat b p h e l a r m =
           ((), \<lparr>world = snd (p (Connect5 h e l a r) (world m)),
                 trace = trace m @ [Connect5 h e l a r]\<rparr>)"
  using threshold_implies_five [OF assms]
  by (simp add: evdi_connect_compat_outcome)

theorem newer_version_forwards_five_witness:
  "(pp_value (Some 1) > 1 \<or> (pp_value (Some 1) = 1 \<and> pp_value (Some 12) > 11)) \<and>
   evdi_connect_compat
      \<lparr>EVDI_CONNECT_COMPAT = False, LIBEVDI_VERSION_MAJOR = Some 1,
       LIBEVDI_VERSION_MINOR = Some 12\<rparr>
      (\<lambda>c w. ((), w\<lparr>library := library w @ [c]\<rparr>))
      (7::nat) 4096 128 1000 60
      \<lparr>world = \<lparr>memory = (\<lambda>x. 0), library = ([] :: nat evdi_call list)\<rparr>,
       trace = ([] :: nat evdi_call list)\<rparr>
   = ((), \<lparr>world = \<lparr>memory = (\<lambda>x. 0), library = [Connect5 7 4096 128 1000 60]\<rparr>,
           trace = [Connect5 7 4096 128 1000 60]\<rparr>)"
  using newer_version_forwards_five
    [of "\<lparr>EVDI_CONNECT_COMPAT = False, LIBEVDI_VERSION_MAJOR = Some 1,
          LIBEVDI_VERSION_MINOR = Some 12\<rparr>"
        "\<lambda>c w. ((), w\<lparr>library := library w @ [c]\<rparr>)"
        "7::nat" 4096 128 1000 60
        "\<lparr>world = \<lparr>memory = (\<lambda>x. 0), library = ([] :: nat evdi_call list)\<rparr>,
          trace = ([] :: nat evdi_call list)\<rparr>"]
  by (simp add: pp_value_def)


section \<open>The older library: the area limit is left out\<close>

text \<open>
  Claim C2, as the code has it. Line 16 tests the minor number whatever the major
  number is, so the four-argument form is compiled exactly when the major number is at
  most 1 and the minor number at most 11 (a macro that is not defined counts as 0).
  For such a build a call of the shim applies the primitive, in its four-argument form,
  to the handle, the EDID pointer, the EDID length and the rate limit, in that order,
  and to the world it was called in. The area limit occurs nowhere in the outcome.
\<close>

theorem older_version_forwards_four:
  assumes "pp_value (LIBEVDI_VERSION_MAJOR b) \<le> 1"
    and "pp_value (LIBEVDI_VERSION_MINOR b) \<le> 11"
  shows "evdi_connect_compat b p h e l a r m =
           ((), \<lparr>world = snd (p (Connect4 h e l r) (world m)),
                 trace = trace m @ [Connect4 h e l r]\<rparr>)"
proof -
  from assms have "\<not> five_argument_form b"
    by (simp add: five_argument_form_def)
  then show ?thesis
    by (simp add: evdi_connect_compat_outcome)
qed

theorem older_version_forwards_four_witness:
  "pp_value (Some 1) \<le> 1 \<and> pp_value (Some 11) \<le> 11 \<and>
   evdi_connect_compat
      \<lparr>EVDI_CONNECT_COMPAT = False, LIBEVDI_VERSION_MAJOR = Some 1,
       LIBEVDI_VERSION_MINOR = Some 11\<rparr>
      (\<lambda>c w. ((), w\<lparr>library := library w @ [c]\<rparr>))
      (7::nat) 4096 128 1000 60
      \<lparr>world = \<lparr>memory = (\<lambda>x. 0), library = ([] :: nat evdi_call list)\<rparr>,
       trace = ([] :: nat evdi_call list)\<rparr>
   = ((), \<lparr>world = \<lparr>memory = (\<lambda>x. 0), library = [Connect4 7 4096 128 60]\<rparr>,
           trace = [Connect4 7 4096 128 60]\<rparr>)"
  using older_version_forwards_four
    [of "\<lparr>EVDI_CONNECT_COMPAT = False, LIBEVDI_VERSION_MAJOR = Some 1,
          LIBEVDI_VERSION_MINOR = Some 11\<rparr>"
        "\<lambda>c w. ((), w\<lparr>library := library w @ [c]\<rparr>)"
        "7::nat" 4096 128 1000 60
        "\<lparr>world = \<lparr>memory = (\<lambda>x. 0), library = ([] :: nat evdi_call list)\<rparr>,
          trace = ([] :: nat evdi_call list)\<rparr>"]
  by (simp add: pp_value_def)

text \<open>
  The claim as it is written, "whenever the threshold of C1 is not met", does not hold
  of line 16: for version macros 0 and 12 the threshold is not met and the shim applies
  the primitive in its five-argument form, the area limit included. The primitive here
  keeps the calls it receives in the library's state.
\<close>

theorem version_0_12_calls_five_argument_form:
  "\<not> (pp_value (Some 0) > 1 \<or> (pp_value (Some 0) = 1 \<and> pp_value (Some 12) > 11)) \<and>
   evdi_connect_compat
      \<lparr>EVDI_CONNECT_COMPAT = False, LIBEVDI_VERSION_MAJOR = Some 0,
       LIBEVDI_VERSION_MINOR = Some 12\<rparr>
      (\<lambda>c w. ((), w\<lparr>library := library w @ [c]\<rparr>))
      (7::nat) 4096 128 1000 60
      \<lparr>world = \<lparr>memory = (\<lambda>x. 0), library = ([] :: nat evdi_call list)\<rparr>,
       trace = ([] :: nat evdi_call list)\<rparr>
   = ((), \<lparr>world = \<lparr>memory = (\<lambda>x. 0), library = [Connect5 7 4096 128 1000 60]\<rparr>,
           trace = [Connect5 7 4096 128 1000 60]\<rparr>) \<and>
   evdi_connect_compat
      \<lparr>EVDI_CONNECT_COMPAT = False, LIBEVDI_VERSION_MAJOR = Some 0,
       LIBEVDI_VERSION_MINOR = Some 12\<rparr>
      (\<lambda>c w. ((), w\<lparr>library := library w @ [c]\<rparr>))
      (7::nat) 4096 128 1000 60
      \<lparr>world = \<lparr>memory = (\<lambda>x. 0), library = ([] :: nat evdi_call list)\<rparr>,
       trace = ([] :: nat evdi_call list)\<rparr>
   \<noteq> ((), \<lparr>world = \<lparr>memory = (\<lambda>x. 0), library = [Connect4 7 4096 128 60]\<rparr>,
           trace = [Connect4 7 4096 128 60]\<rparr>)"
  by (simp add: pp_value_def evdi_connect_compat_def five_argument_form_def
        call_primitive_def)


section \<open>What comes back\<close>

text \<open>
  Claim C3, as the code has it. The shim is a \<^verbatim>\<open>void\<close> function: it hands its caller no
  value, whatever the primitive returns. What it passes on is the effect: on either
  path the world after the shim is the world the one call of the primitive leaves, and
  the shim has no outcome of its own, no failure and no other step before or after the
  call.
\<close>

theorem effect_is_the_primitives:
  "world (snd (evdi_connect_compat b p h e l a r m)) =
     snd (p (if five_argument_form b then Connect5 h e l a r else Connect4 h e l r)
            (world m)) \<and>
   trace (snd (evdi_connect_compat b p h e l a r m)) =
     trace m @ [if five_argument_form b then Connect5 h e l a r else Connect4 h e l r]"
  by (simp add: evdi_connect_compat_outcome)

text \<open>
  The claim as it is written, "the shim returns exactly the value returned by the
  primitive", does not hold of a \<^verbatim>\<open>void\<close> shim: a primitive that returns 0 and one
  that returns -1, with the same effect, give the same outcome of the shim, so the
  value the primitive returned cannot be read off what the shim returns.
\<close>

theorem returned_value_is_dropped:
  "fst ((\<lambda>c w. (0 :: int, w\<lparr>library := Suc (library w)\<rparr>))
          (Connect5 (7::nat) 4096 128 1000 60)
          \<lparr>memory = (\<lambda>x. 0), library = (0::nat)\<rparr>) = 0 \<and>
   fst ((\<lambda>c w. (- 1 :: int, w\<lparr>library := Suc (library w)\<rparr>))
          (Connect5 (7::nat) 4096 128 1000 60)
          \<lparr>memory = (\<lambda>x. 0), library = (0::nat)\<rparr>) = - 1 \<and>
   evdi_connect_compat
      \<lparr>EVDI_CONNECT_COMPAT = False, LIBEVDI_VERSION_MAJOR = Some 1,
       LIBEVDI_VERSION_MINOR = Some 12\<rparr>
      (\<lambda>c w. (0 :: int, w\<lparr>library := Suc (library w)\<rparr>))
      (7::nat) 4096 128 1000 60
      \<lparr>world = \<lparr>memory = (\<lambda>x. 0), library = (0::nat)\<rparr>,
       trace = ([] :: nat evdi_call list)\<rparr>
   = evdi_connect_compat
      \<lparr>EVDI_CONNECT_COMPAT = False, LIBEVDI_VERSION_MAJOR = Some 1,
       LIBEVDI_VERSION_MINOR = Some 12\<rparr>
      (\<lambda>c w. (- 1 :: int, w\<lparr>library := Suc (library w)\<rparr>))
      (7::nat) 4096 128 1000 60
      \<lparr>world = \<lparr>memory = (\<lambda>x. 0), library = (0::nat)\<rparr>,
       trace = ([] :: nat evdi_call list)\<rparr>"
  by (simp add: evdi_connect_compat_outcome)


section \<open>The choice of the form\<close>

text \<open>
  Claim C4. For a fixed build the form of the call is fixed: two runs of the shim of
  one build, with any two argument tuples, any two primitives and any two states, call
  the primitive in the same form, the one the version macros select.
\<close>

theorem call_form_fixed_by_build:
  "\<exists>c c'. trace (snd (evdi_connect_compat b p h e l a r m)) = trace m @ [c] \<and>
           trace (snd (evdi_connect_compat b p' h' e' l' a' r' m')) = trace m' @ [c'] \<and>
           is_five c = is_five c' \<and>
           is_five c = five_argument_form b"
  by (cases "five_argument_form b")
     (simp_all add: five_argument_call four_argument_call call_primitive_trace)


section \<open>The area limit under the older signature\<close>

text \<open>
  Claim C5. When the four-argument form is the one compiled, the area limit has no
  effect: two calls that differ only in \<^verbatim>\<open>pixel_area_limit\<close> have the same outcome, that
  is the same call of the primitive, the same result and the same world afterwards.
\<close>

theorem area_limit_ignored_by_older_form:
  assumes "\<not> five_argument_form b"
  shows "evdi_connect_compat b p h e l a r m = evdi_connect_compat b p h e l a' r m"
  using assms by (simp add: four_argument_call)

theorem area_limit_ignored_by_older_form_witness:
  "\<not> five_argument_form
        \<lparr>EVDI_CONNECT_COMPAT = False, LIBEVDI_VERSION_MAJOR = Some 1,
         LIBEVDI_VERSION_MINOR = Some 11\<rparr> \<and>
   evdi_connect_compat
      \<lparr>EVDI_CONNECT_COMPAT = False, LIBEVDI_VERSION_MAJOR = Some 1,
       LIBEVDI_VERSION_MINOR = Some 11\<rparr>
      (\<lambda>c w. ((), w\<lparr>library := Suc (library w)\<rparr>))
      (7::nat) 4096 128 1000 60
      \<lparr>world = \<lparr>memory = (\<lambda>x. 0), library = (0::nat)\<rparr>, trace = []\<rparr>
   = evdi_connect_compat
      \<lparr>EVDI_CONNECT_COMPAT = False, LIBEVDI_VERSION_MAJOR = Some 1,
       LIBEVDI_VERSION_MINOR = Some 11\<rparr>
      (\<lambda>c w. ((), w\<lparr>library := Suc (library w)\<rparr>))
      (7::nat) 4096 128 5 60
      \<lparr>world = \<lparr>memory = (\<lambda>x. 0), library = (0::nat)\<rparr>, trace = []\<rparr>"
  using area_limit_ignored_by_older_form
    [of "\<lparr>EVDI_CONNECT_COMPAT = False, LIBEVDI_VERSION_MAJOR = Some 1,
          LIBEVDI_VERSION_MINOR = Some 11\<rparr>"
        "\<lambda>c w. ((), w\<lparr>library := Suc (library w)\<rparr>)"
        "7::nat" 4096 128 1000 60
        "\<lparr>world = \<lparr>memory = (\<lambda>x. 0), library = (0::nat)\<rparr>, trace = []\<rparr>" 5]
  by (simp add: five_argument_form_def pp_value_def)


section \<open>Conditional definition\<close>

text \<open>
  Claim C6. When \<^verbatim>\<open>EVDI_CONNECT_COMPAT\<close> is defined the translation unit defines
  nothing; when it is not defined the unit defines \<^verbatim>\<open>evdi_connect_compat\<close> and nothing
  else. So if the macro is defined exactly when the library brings a function of that
  name, linking the unit with the library's functions \<open>lib\<close> defines no name twice.
\<close>

theorem shim_defined_only_without_native:
  "(EVDI_CONNECT_COMPAT b \<longrightarrow>
      (translation_unit b :: (string \<times> ('h, 'x, 'r) shim) list) = []) \<and>
   (\<not> EVDI_CONNECT_COMPAT b \<longrightarrow>
      (translation_unit b :: (string \<times> ('h, 'x, 'r) shim) list) =
        [(''evdi_connect_compat'', evdi_connect_compat b)]) \<and>
   (distinct lib \<and> (EVDI_CONNECT_COMPAT b \<longleftrightarrow> ''evdi_connect_compat'' \<in> set lib) \<longrightarrow>
      distinct (lib @ map fst (translation_unit b :: (string \<times> ('h, 'x, 'r) shim) list)))"
  by (simp add: translation_unit_def)

theorem shim_defined_only_without_native_witness:
  "(translation_unit
      \<lparr>EVDI_CONNECT_COMPAT = True, LIBEVDI_VERSION_MAJOR = Some 1,
       LIBEVDI_VERSION_MINOR = Some 14\<rparr>
      :: (string \<times> (nat, nat, unit) shim) list) = [] \<and>
   distinct [''evdi_connect'', ''evdi_connect_compat''] \<and>
   distinct ([''evdi_connect'', ''evdi_connect_compat''] @
     map fst (translation_unit
      \<lparr>EVDI_CONNECT_COMPAT = True, LIBEVDI_VERSION_MAJOR = Some 1,
       LIBEVDI_VERSION_MINOR = Some 14\<rparr>
      :: (string \<times> (nat, nat, unit) shim) list)) \<and>
   map fst (translation_unit
      \<lparr>EVDI_CONNECT_COMPAT = False, LIBEVDI_VERSION_MAJOR = Some 1,
       LIBEVDI_VERSION_MINOR = Some 11\<rparr>
      :: (string \<times> (nat, nat, unit) shim) list) = [''evdi_connect_compat''] \<and>
   distinct [''evdi_connect''] \<and>
   distinct ([''evdi_connect''] @
     map fst (translation_unit
      \<lparr>EVDI_CONNECT_COMPAT = False, LIBEVDI_VERSION_MAJOR = Some 1,
       LIBEVDI_VERSION_MINOR = Some 11\<rparr>
      :: (string \<times> (nat, nat, unit) shim) list))"
proof -
  note native = shim_defined_only_without_native
    [where 'h = nat and 'x = nat and 'r = unit,
     of "\<lparr>EVDI_CONNECT_COMPAT = True, LIBEVDI_VERSION_MAJOR = Some 1,
          LIBEVDI_VERSION_MINOR = Some 14\<rparr>"
        "[''evdi_connect'', ''evdi_connect_compat'']"]
  note absent = shim_defined_only_without_native
    [where 'h = nat and 'x = nat and 'r = unit,
     of "\<lparr>EVDI_CONNECT_COMPAT = False, LIBEVDI_VERSION_MAJOR = Some 1,
          LIBEVDI_VERSION_MINOR = Some 11\<rparr>"
        "[''evdi_connect'']"]
  from native absent show ?thesis by simp
qed


section \<open>Nothing is altered on the way\<close>

text \<open>
  Claim C7. The parameters are passed by value and the embedding binds them once, so
  the handle, the EDID pointer, the length and the two limits are what they were. The
  theorem states the rest: each value in the call of the primitive is the value the
  caller supplied, in its position; the shim stores nothing, so the memory after the
  call is the memory the primitive leaves; and the bytes of the EDID buffer, the
  \<open>unat l\<close> bytes from address \<open>e\<close>, are after the call what they were before whenever
  the primitive, which takes the buffer through a pointer to \<^verbatim>\<open>const\<close>, leaves them
  alone in the call it receives.
\<close>

theorem arguments_forwarded_unaltered:
  "trace (snd (evdi_connect_compat b p h e l a r m)) =
     trace m @ [if five_argument_form b then Connect5 h e l a r else Connect4 h e l r] \<and>
   memory (world (snd (evdi_connect_compat b p h e l a r m))) =
     memory (snd (p (if five_argument_form b then Connect5 h e l a r else Connect4 h e l r)
                    (world m))) \<and>
   ((\<forall>i < unat l.
        memory (snd (p (if five_argument_form b then Connect5 h e l a r else Connect4 h e l r)
                       (world m))) (e + i) =
        memory (world m) (e + i)) \<longrightarrow>
    (\<forall>i < unat l.
        memory (world (snd (evdi_connect_compat b p h e l a r m))) (e + i) =
        memory (world m) (e + i)))"
  by (simp add: evdi_connect_compat_def call_primitive_trace call_primitive_world)

theorem arguments_forwarded_unaltered_witness:
  "unat (128 :: 32 word) = 128 \<and>
   memory (snd ((\<lambda>c w. ((), w\<lparr>library := Suc (library w)\<rparr>))
                  (Connect5 (7::nat) 4096 128 1000 60)
                  \<lparr>memory = (\<lambda>x. if x = 4096 + 127 then 9 else 0), library = (0::nat)\<rparr>))
      (4096 + 127) = 9 \<and>
   memory (world (snd (evdi_connect_compat
      \<lparr>EVDI_CONNECT_COMPAT = False, LIBEVDI_VERSION_MAJOR = Some 1,
       LIBEVDI_VERSION_MINOR = Some 12\<rparr>
      (\<lambda>c w. ((), w\<lparr>library := Suc (library w)\<rparr>))
      (7::nat) 4096 128 1000 60
      \<lparr>world = \<lparr>memory = (\<lambda>x. if x = 4096 + 127 then 9 else 0), library = (0::nat)\<rparr>,
       trace = []\<rparr>)))
      (4096 + 127) = 9 \<and>
   trace (snd (evdi_connect_compat
      \<lparr>EVDI_CONNECT_COMPAT = False, LIBEVDI_VERSION_MAJOR = Some 1,
       LIBEVDI_VERSION_MINOR = Some 12\<rparr>
      (\<lambda>c w. ((), w\<lparr>library := Suc (library w)\<rparr>))
      (7::nat) 4096 128 1000 60
      \<lparr>world = \<lparr>memory = (\<lambda>x. if x = 4096 + 127 then 9 else 0), library = (0::nat)\<rparr>,
       trace = []\<rparr>))
   = [Connect5 7 4096 128 1000 60]"
proof -
  let ?b = "\<lparr>EVDI_CONNECT_COMPAT = False, LIBEVDI_VERSION_MAJOR = Some 1,
            LIBEVDI_VERSION_MINOR = Some 12\<rparr>"
  let ?p = "\<lambda>(c :: nat evdi_call) (w :: nat world). ((), w\<lparr>library := Suc (library w)\<rparr>)"
  let ?w = "\<lparr>memory = (\<lambda>x. if x = 4096 + 127 then 9 else 0), library = (0::nat)\<rparr>"
  let ?m = "\<lparr>world = ?w, trace = ([] :: nat evdi_call list)\<rparr>"
  have five: "five_argument_form ?b"
    by (simp add: five_argument_form_def pp_value_def)
  have len: "unat (128 :: 32 word) = 128"
    by simp
  have kept: "\<forall>i < unat (128 :: 32 word).
      memory (snd (?p (if five_argument_form ?b then Connect5 7 4096 128 1000 60
                       else Connect4 7 4096 128 60) (world ?m))) (4096 + i) =
      memory (world ?m) (4096 + i)"
    by simp
  note run = arguments_forwarded_unaltered [of ?b ?p 7 4096 128 1000 60 ?m]
  note frame = run [THEN conjunct2, THEN conjunct2, THEN mp, OF kept, rule_format, of 127]
  from len have "(127::nat) < unat (128 :: 32 word)"
    by simp
  then have "memory (world (snd (evdi_connect_compat ?b ?p 7 4096 128 1000 60 ?m)))
      (4096 + 127) = memory (world ?m) (4096 + 127)"
    by (rule frame)
  then have bytes: "memory (world (snd (evdi_connect_compat ?b ?p 7 4096 128 1000 60 ?m)))
      (4096 + 127) = 9"
    by simp
  from run [THEN conjunct1] five
  have call: "trace (snd (evdi_connect_compat ?b ?p 7 4096 128 1000 60 ?m))
      = [Connect5 7 4096 128 1000 60]"
    by simp
  from len bytes call show ?thesis
    by simp
qed


section \<open>No state of its own\<close>

text \<open>
  Claim C8. The shim keeps nothing between calls and adds nothing to the state. After
  any list of calls of the shim the world is the world that the same list of calls of
  the primitive leaves, one for one and in order, and nothing else has changed. A call
  made after them applies the primitive to the same call, fixed by the build and the
  arguments alone, however many calls went before, and its outcome is the primitive's
  on the world those calls left.
\<close>

theorem shim_is_stateless:
  "fold (\<lambda>(h, e, l, a, r) s. snd (evdi_connect_compat b p h e l a r s)) calls m =
     \<lparr>world = fold (\<lambda>(h, e, l, a, r) w.
                 snd (p (if five_argument_form b then Connect5 h e l a r
                         else Connect4 h e l r) w)) calls (world m),
      trace = trace m @ map (\<lambda>(h, e, l, a, r).
                 if five_argument_form b then Connect5 h e l a r
                 else Connect4 h e l r) calls\<rparr> \<and>
   evdi_connect_compat b p h' e' l' a' r'
       (fold (\<lambda>(h, e, l, a, r) s. snd (evdi_connect_compat b p h e l a r s)) calls m) =
     ((), \<lparr>world = snd (p (if five_argument_form b then Connect5 h' e' l' a' r'
                          else Connect4 h' e' l' r')
                       (fold (\<lambda>(h, e, l, a, r) w.
                          snd (p (if five_argument_form b then Connect5 h e l a r
                                  else Connect4 h e l r) w)) calls (world m))),
           trace = (trace m @ map (\<lambda>(h, e, l, a, r).
                      if five_argument_form b then Connect5 h e l a r
                      else Connect4 h e l r) calls) @
                   [if five_argument_form b then Connect5 h' e' l' a' r'
                    else Connect4 h' e' l' r']\<rparr>)"
proof -
  let ?C = "\<lambda>(h, e, l, a, r).
              if five_argument_form b then Connect5 h e l a r else Connect4 h e l r"
  let ?F = "\<lambda>(h, e, l, a, r) s. snd (evdi_connect_compat b p h e l a r s)"
  let ?G = "\<lambda>(h, e, l, a, r) w.
              snd (p (if five_argument_form b then Connect5 h e l a r
                      else Connect4 h e l r) w)"
  have run: "fold ?F calls m =
      \<lparr>world = fold ?G calls (world m), trace = trace m @ map ?C calls\<rparr>"
  proof (induction calls arbitrary: m)
    case Nil
    show ?case by simp
  next
    case (Cons c calls)
    obtain h e l a r where c: "c = (h, e, l, a, r)"
      by (cases c)
    let ?m' = "snd (evdi_connect_compat b p h e l a r m)"
    have step: "?m' = \<lparr>world = ?G c (world m), trace = trace m @ [?C c]\<rparr>"
      by (simp add: c evdi_connect_compat_outcome)
    have "fold ?F (c # calls) m = fold ?F calls ?m'"
      by (simp add: c)
    also have "\<dots> = \<lparr>world = fold ?G calls (world ?m'), trace = trace ?m' @ map ?C calls\<rparr>"
      by (rule Cons.IH)
    also have "\<dots> = \<lparr>world = fold ?G (c # calls) (world m),
                       trace = trace m @ map ?C (c # calls)\<rparr>"
      by (simp add: step)
    finally show ?case .
  qed
  have next_call: "evdi_connect_compat b p h' e' l' a' r' (fold ?F calls m) =
      ((), \<lparr>world = ?G (h', e', l', a', r') (world (fold ?F calls m)),
            trace = trace (fold ?F calls m) @ [?C (h', e', l', a', r')]\<rparr>)"
    by (simp add: evdi_connect_compat_outcome)
  from run have w: "world (fold ?F calls m) = fold ?G calls (world m)"
    and t: "trace (fold ?F calls m) = trace m @ map ?C calls"
    by simp_all
  from run next_call w t show ?thesis
    by simp
qed

theorem shim_is_stateless_witness:
  "fold (\<lambda>(h, e, l, a, r) s. snd (evdi_connect_compat
           \<lparr>EVDI_CONNECT_COMPAT = False, LIBEVDI_VERSION_MAJOR = Some 1,
            LIBEVDI_VERSION_MINOR = Some 12\<rparr>
           (\<lambda>c w. ((), w\<lparr>library := library w @ [c]\<rparr>)) h e l a r s))
      [(7::nat, 4096, 128, 1000, 60), (7, 4096, 128, 1000, 60), (8, 0, 0, 0, 0)]
      \<lparr>world = \<lparr>memory = (\<lambda>x. 0), library = ([] :: nat evdi_call list)\<rparr>,
       trace = ([] :: nat evdi_call list)\<rparr>
   = \<lparr>world = \<lparr>memory = (\<lambda>x. 0),
               library = [Connect5 7 4096 128 1000 60, Connect5 7 4096 128 1000 60,
                          Connect5 8 0 0 0 0]\<rparr>,
      trace = [Connect5 7 4096 128 1000 60, Connect5 7 4096 128 1000 60,
               Connect5 8 0 0 0 0]\<rparr>"
proof -
  have five: "five_argument_form
      \<lparr>EVDI_CONNECT_COMPAT = False, LIBEVDI_VERSION_MAJOR = Some 1,
       LIBEVDI_VERSION_MINOR = Some 12\<rparr>"
    by (simp add: five_argument_form_def pp_value_def)
  from five shim_is_stateless
    [of "\<lparr>EVDI_CONNECT_COMPAT = False, LIBEVDI_VERSION_MAJOR = Some 1,
          LIBEVDI_VERSION_MINOR = Some 12\<rparr>"
        "\<lambda>c w. ((), w\<lparr>library := library w @ [c]\<rparr>)"
        "[(7::nat, 4096, 128, 1000, 60), (7, 4096, 128, 1000, 60), (8, 0, 0, 0, 0)]"
        "\<lparr>world = \<lparr>memory = (\<lambda>x. 0), library = ([] :: nat evdi_call list)\<rparr>,
          trace = ([] :: nat evdi_call list)\<rparr>",
     THEN conjunct1]
  show ?thesis by simp
qed


section \<open>One call for one call\<close>

text \<open>
  Claim C9. Every call of the shim applies the primitive exactly once, on either path:
  for any primitive the world after the shim is the world one application leaves, on
  the world the shim was called in, and the calls made grow by that one call. For a
  primitive that counts its calls the count goes up by one.
\<close>

theorem primitive_called_exactly_once:
  "evdi_connect_compat b p h e l a r m =
     ((), \<lparr>world = snd (p (if five_argument_form b then Connect5 h e l a r
                          else Connect4 h e l r) (world m)),
           trace = trace m @ [if five_argument_form b then Connect5 h e l a r
                              else Connect4 h e l r]\<rparr>) \<and>
   length (trace (snd (evdi_connect_compat b p h e l a r m))) = Suc (length (trace m)) \<and>
   library (world (snd (evdi_connect_compat b
       (\<lambda>c w. ((), w\<lparr>library := Suc (library w)\<rparr>)) h e l a r n))) =
     Suc (library (world n))"
  by (simp add: evdi_connect_compat_outcome)


section \<open>No validation\<close>


end
